theory Spec2Isabelle
  imports Complex_Main "HOL-Library.Word"
begin

section \<open>SectionObserver: the scroll-snap navigator\<close>

text \<open>
  The component \<^verbatim>\<open>SectionObserver.tsx\<close> keeps its state in the local variables of one
  effect closure. They become the fields of \<open>nav_state\<close>. JavaScript numbers are modelled
  as \<open>int\<close> where the code only ever stores integers (section indices) and as \<open>real\<close>
  where it stores measurements (wheel deltas, touch coordinates, ratios).

  What the closure does to its surroundings is recorded in three more fields:
  \<open>scrolledIntoView\<close> logs every \<^verbatim>\<open>scrollIntoView\<close> request, \<open>published\<close> logs every
  dispatched \<^verbatim>\<open>sectionchange\<close> event, \<open>classActive\<close> is the set of sections carrying the
  class \<^verbatim>\<open>is-active\<close>.

  Timers: the browser's clock is the field \<open>clock\<close> (milliseconds). A timer handle is
  modelled by the deadline of the pending timer it names; \<^verbatim>\<open>clearTimeout\<close> followed by
  \<^verbatim>\<open>= null\<close> is \<open>None\<close>. The function \<open>elapse\<close> lets time pass and runs the callbacks of
  the timers whose deadline is reached.
\<close>

datatype side = LeftSide | RightSide

text \<open>A DOM element: its identity, and the two data attributes the code reads.\<close>

record element =
  ident :: nat
  sectionId :: "string option"
  sectionSide :: "string option"

record entry =
  target :: element
  isIntersecting :: bool
  intersectionRatio :: real

datatype error = TypeError

definition SCROLL_LOCK_MS :: nat where
  "SCROLL_LOCK_MS = 900"

definition WHEEL_TRIGGER :: real where
  "WHEEL_TRIGGER = 80"

definition TOUCH_TRIGGER :: real where
  "TOUCH_TRIGGER = 70"

definition WHEEL_RESET_MS :: nat where
  "WHEEL_RESET_MS = 220"

record nav_state =
  activeIndex :: int
  isAnimating :: bool
  wheelDelta :: real
  wheelResetTimer :: "nat option"
  releaseTimer :: "nat option"
  touchStartY :: "real option"
  activeSide :: side
  clock :: nat
  classActive :: "element set"
  scrolledIntoView :: "element list"
  published :: "(string \<times> side) list"

definition initialState :: nav_state where
  "initialState =
     \<lparr>activeIndex = 0, isAnimating = False, wheelDelta = 0, wheelResetTimer = None,
      releaseTimer = None, touchStartY = None, activeSide = LeftSide, clock = 0,
      classActive = {}, scrolledIntoView = [], published = []\<rparr>"

definition resetWheel :: "nav_state \<Rightarrow> nav_state" where
  "resetWheel s =
     (let s1 = (if wheelResetTimer s \<noteq> None then s\<lparr>wheelResetTimer := None\<rparr> else s)
      in s1\<lparr>wheelDelta := 0\<rparr>)"

definition unlockScroll :: "nav_state \<Rightarrow> nav_state" where
  "unlockScroll s =
     (let s1 = (if releaseTimer s \<noteq> None then s\<lparr>releaseTimer := None\<rparr> else s)
      in s1\<lparr>isAnimating := False\<rparr>)"

text \<open>The callback that \<^verbatim>\<open>scheduleWheelReset\<close> hands to \<^verbatim>\<open>setTimeout\<close>.\<close>

definition wheelResetCallback :: "nav_state \<Rightarrow> nav_state" where
  "wheelResetCallback s = s\<lparr>wheelDelta := 0, wheelResetTimer := None\<rparr>"

definition scheduleWheelReset :: "nav_state \<Rightarrow> nav_state" where
  "scheduleWheelReset s = s\<lparr>wheelResetTimer := Some (clock s + WHEEL_RESET_MS)\<rparr>"

definition scrollToIndex :: "element list \<Rightarrow> int \<Rightarrow> nav_state \<Rightarrow> nav_state" where
  "scrollToIndex sections index s =
     (if index < 0 \<or> index \<ge> int (length sections) then s
      else
        let s1 = resetWheel s;
            s2 = s1\<lparr>isAnimating := True\<rparr>;
            s3 = s2\<lparr>scrolledIntoView := scrolledIntoView s2 @ [sections ! nat index]\<rparr>
        in s3\<lparr>releaseTimer := Some (clock s3 + SCROLL_LOCK_MS)\<rparr>)"

text \<open>The body of \<^verbatim>\<open>sections.forEach((section, idx) => ...)\<close> in \<^verbatim>\<open>setActive\<close>.\<close>

fun forEachSection :: "element \<Rightarrow> element list \<Rightarrow> int \<Rightarrow> nav_state \<Rightarrow> nav_state" where
  "forEachSection el [] idx s = s"
| "forEachSection el (section # rest) idx s =
     (let isCurrent = (section = el);
          s1 = s\<lparr>classActive :=
                  (if isCurrent then insert section (classActive s)
                   else classActive s - {section})\<rparr>;
          s2 = (if isCurrent
                then s1\<lparr>activeIndex := idx,
                        activeSide := (if sectionSide section = Some ''right''
                                       then RightSide else LeftSide)\<rparr>
                else s1)
      in forEachSection el rest (idx + 1) s2)"

definition setActive :: "element list \<Rightarrow> element \<Rightarrow> nav_state \<Rightarrow> nav_state" where
  "setActive sections el s =
     (case sectionId el of
        None \<Rightarrow> s
      | Some i \<Rightarrow>
          if i = [] then s
          else
            let s1 = forEachSection el sections 0 s
            in s1\<lparr>published := published s1 @ [(i, activeSide s1)]\<rparr>)"

text \<open>
  The \<^verbatim>\<open>IntersectionObserver\<close> callback. \<^verbatim>\<open>Array.prototype.sort\<close> is stable, and so is
  \<open>sort_key\<close>; sorting by the negated ratio is sorting by \<^verbatim>\<open>b.ratio - a.ratio\<close>. Every
  observed element is a section, hence an \<^verbatim>\<open>HTMLElement\<close>.
\<close>

definition visibleEntry :: "entry list \<Rightarrow> entry option" where
  "visibleEntry entries =
     (case sort_key (\<lambda>e. - intersectionRatio e) (filter isIntersecting entries) of
        [] \<Rightarrow> None
      | visible # _ \<Rightarrow> Some visible)"

definition observerCallback :: "element list \<Rightarrow> entry list \<Rightarrow> nav_state \<Rightarrow> nav_state" where
  "observerCallback sections entries s =
     (case visibleEntry entries of
        None \<Rightarrow> s
      | Some visible \<Rightarrow> setActive sections (target visible) s)"

text \<open>
  The handlers return whether \<^verbatim>\<open>event.preventDefault()\<close> was called, and the new state.
\<close>

definition handleWheel :: "element list \<Rightarrow> real \<Rightarrow> nav_state \<Rightarrow> bool \<times> nav_state" where
  "handleWheel sections deltaY s =
     (if isAnimating s then (True, s)
      else
        let s1 = s\<lparr>wheelDelta := wheelDelta s + deltaY\<rparr>;
            s2 = scheduleWheelReset s1
        in if \<bar>wheelDelta s2\<bar> < WHEEL_TRIGGER then (False, s2)
           else
             let direction = (if wheelDelta s2 > 0 then 1 else - 1);
                 targetIndex = activeIndex s2 + direction;
                 s3 = (if targetIndex \<ge> 0 \<and> targetIndex < int (length sections)
                       then scrollToIndex sections targetIndex s2 else s2)
             in (True, resetWheel s3))"

text \<open>A touch event is given by the \<^verbatim>\<open>clientY\<close> of each entry of \<^verbatim>\<open>event.touches\<close>.\<close>

definition handleTouchStart :: "real list \<Rightarrow> nav_state \<Rightarrow> nav_state" where
  "handleTouchStart touches s =
     (case touches of
        [y0] \<Rightarrow> resetWheel (s\<lparr>touchStartY := Some y0\<rparr>)
      | _ \<Rightarrow> s)"

text \<open>
  \<^verbatim>\<open>event.touches[0].clientY\<close> throws a \<^verbatim>\<open>TypeError\<close> on an empty touch list; nothing
  has been written by then.
\<close>

definition handleTouchMove ::
  "element list \<Rightarrow> real list \<Rightarrow> nav_state \<Rightarrow> error + bool \<times> nav_state" where
  "handleTouchMove sections touches s =
     (case touchStartY s of
        None \<Rightarrow> Inr (False, s)
      | Some y0 \<Rightarrow>
          if isAnimating s then Inr (False, s)
          else
            (case touches of
               [] \<Rightarrow> Inl TypeError
             | currentY # _ \<Rightarrow>
                 let delta = y0 - currentY
                 in if \<bar>delta\<bar> < TOUCH_TRIGGER then Inr (False, s)
                    else
                      let direction = (if delta > 0 then 1 else - 1);
                          targetIndex = activeIndex s + direction;
                          s1 = (if targetIndex \<ge> 0 \<and> targetIndex < int (length sections)
                                then scrollToIndex sections targetIndex s else s)
                      in Inr (True, s1\<lparr>touchStartY := None\<rparr>)))"

definition handleTouchEnd :: "nav_state \<Rightarrow> nav_state" where
  "handleTouchEnd s = s\<lparr>touchStartY := None\<rparr>"

text \<open>The deferred first activation, \<^verbatim>\<open>requestAnimationFrame(() => setActive(sections[0]))\<close>.\<close>

definition firstFrame :: "element list \<Rightarrow> nav_state \<Rightarrow> nav_state" where
  "firstFrame sections s =
     (case sections of [] \<Rightarrow> s | first # _ \<Rightarrow> setActive sections first s)"

text \<open>
  Time passes by \<open>d\<close> milliseconds: a pending timer whose deadline is reached runs its
  callback (\<^verbatim>\<open>unlockScroll\<close> for the release timer). No callback sets a timer, so one pass
  is enough, and the two callbacks write different variables, so their order is immaterial.
\<close>

definition elapse :: "nat \<Rightarrow> nav_state \<Rightarrow> nav_state" where
  "elapse d s =
     (let t = clock s + d;
          s1 = (case releaseTimer s of
                  None \<Rightarrow> s
                | Some deadline \<Rightarrow> if deadline \<le> t then unlockScroll s else s);
          s2 = (case wheelResetTimer s1 of
                  None \<Rightarrow> s1
                | Some deadline \<Rightarrow> if deadline \<le> t then wheelResetCallback s1 else s1)
      in s2\<lparr>clock := t\<rparr>)"

text \<open>Everything that can happen to the mounted component, and a run of such events.\<close>

datatype nav_event =
    Wheel real
  | TouchStart "real list"
  | TouchMove "real list"
  | TouchEnd
  | Intersection "entry list"
  | FirstFrame
  | Elapse nat

fun step :: "element list \<Rightarrow> nav_event \<Rightarrow> nav_state \<Rightarrow> nav_state" where
  "step sections (Wheel deltaY) s = snd (handleWheel sections deltaY s)"
| "step sections (TouchStart touches) s = handleTouchStart touches s"
| "step sections (TouchMove touches) s =
     (case handleTouchMove sections touches s of Inl _ \<Rightarrow> s | Inr r \<Rightarrow> snd r)"
| "step sections TouchEnd s = handleTouchEnd s"
| "step sections (Intersection entries) s = observerCallback sections entries s"
| "step sections FirstFrame s = firstFrame sections s"
| "step sections (Elapse d) s = elapse d s"

fun run :: "element list \<Rightarrow> nav_event list \<Rightarrow> nav_state \<Rightarrow> nav_state" where
  "run sections [] s = s"
| "run sections (ev # evs) s = run sections evs (step sections ev s)"

fun elapsed :: "nav_event list \<Rightarrow> nat" where
  "elapsed [] = 0"
| "elapsed (Elapse d # evs) = d + elapsed evs"
| "elapsed (_ # evs) = elapsed evs"

section \<open>AsciiCanvas: the glyph field and its ripples\<close>

text \<open>
  The component \<^verbatim>\<open>AsciiCanvas.tsx\<close> keeps its state in React references and one React
  state variable; they are the fields of \<open>canvas_state\<close>. Numbers that hold measurements
  or times are \<open>real\<close>: the doubles of the source are taken to be exact. Grid sizes are
  \<open>nat\<close>, being ceilings of the non-negative viewport sizes.

  What the environment supplies is passed in: the viewport and canvas sizes, the value of
  \<^verbatim>\<open>performance.now()\<close>, the handle that \<^verbatim>\<open>requestAnimationFrame\<close> returns, and the
  sequence \<open>rnd\<close> of the values that successive calls of \<^verbatim>\<open>Math.random()\<close> return; the
  field \<open>randomCalls\<close> counts the calls made so far. Writes to the canvas element and to
  its 2D context are output, not state.
\<close>

record ripple =
  ripple_x :: real
  ripple_y :: real
  start :: real
  duration :: real
  speed :: real
  strength :: real

definition CELL_SIZE :: real where
  "CELL_SIZE = 18"

definition MAX_RIPPLES :: nat where
  "MAX_RIPPLES = 6"

definition STAR_DENSITY :: real where
  "STAR_DENSITY = 0.012"

record canvas_state =
  activeSection :: string
  ripples :: "ripple list"
  starMask :: "8 word list"
  gridMeta :: "nat \<times> nat \<times> real"
  animationRef :: "nat option"
  randomCalls :: nat

definition initialCanvas :: canvas_state where
  "initialCanvas =
     \<lparr>activeSection = ''about'', ripples = [], starMask = [],
      gridMeta = (0, 0, CELL_SIZE), animationRef = None, randomCalls = 0\<rparr>"

text \<open>
  The loop \<^verbatim>\<open>for (let i = 0; i < starCount; i += 1)\<close> of \<^verbatim>\<open>regenerateStars\<close>, on the mask
  and the number of calls of \<^verbatim>\<open>Math.random()\<close>. A typed array ignores a write outside its
  bounds. \<open>totalCells\<close> and \<open>maskArray\<close> are the \<^verbatim>\<open>total\<close> and the
  \<^verbatim>\<open>mask\<close> of the source.
\<close>

function starLoop ::
  "int \<Rightarrow> int \<Rightarrow> nat \<Rightarrow> (nat \<Rightarrow> real) \<Rightarrow> 8 word list \<times> nat \<Rightarrow> 8 word list \<times> nat" where
  "starLoop i starCount totalCells rnd (maskArray, calls) =
     (if i < starCount
      then
        let idx = \<lfloor>rnd calls * real totalCells\<rfloor>;
            maskArray1 = (if 0 \<le> idx \<and> idx < int (length maskArray)
                     then maskArray[nat idx := 1] else maskArray)
        in starLoop (i + 1) starCount totalCells rnd (maskArray1, calls + 1)
      else (maskArray, calls))"
  by pat_completeness auto
termination
  by (relation "measure (\<lambda>(i, starCount, totalCells, rnd, m). nat (starCount - i))") auto

definition regenerateStars ::
  "nat \<Rightarrow> nat \<Rightarrow> (nat \<Rightarrow> real) \<Rightarrow> canvas_state \<Rightarrow> canvas_state" where
  "regenerateStars cols rows rnd s =
     (let totalCells = cols * rows;
          starCount = max 80 \<lfloor>real totalCells * STAR_DENSITY\<rfloor>;
          maskArray = replicate totalCells 0;
          r = starLoop 0 starCount totalCells rnd (maskArray, randomCalls s)
      in s\<lparr>starMask := fst r, randomCalls := snd r\<rparr>)"

text \<open>\<open>width\<close> and \<open>height\<close> are \<^verbatim>\<open>window.innerWidth\<close> and \<^verbatim>\<open>window.innerHeight\<close>.\<close>

definition handleResize ::
  "nat \<Rightarrow> nat \<Rightarrow> (nat \<Rightarrow> real) \<Rightarrow> canvas_state \<Rightarrow> canvas_state" where
  "handleResize width height rnd s =
     (let cols = nat \<lceil>real width / CELL_SIZE\<rceil>;
          rows = nat \<lceil>real height / CELL_SIZE\<rceil>;
          s1 = s\<lparr>gridMeta := (cols, rows, CELL_SIZE)\<rparr>
      in regenerateStars cols rows rnd s1)"

text \<open>\<open>now\<close> is the value of \<^verbatim>\<open>performance.now()\<close> at the call.\<close>

definition pushRipple :: "real \<Rightarrow> real \<Rightarrow> real \<Rightarrow> real \<Rightarrow> canvas_state \<Rightarrow> canvas_state" where
  "pushRipple originX originY str now s =
     (let s1 = s\<lparr>ripples := ripples s @
                  [\<lparr>ripple_x = originX, ripple_y = originY, start = now,
                    duration = 2.6, speed = 7.1, strength = str\<rparr>]\<rparr>
      in if length (ripples s1) > MAX_RIPPLES then s1\<lparr>ripples := tl (ripples s1)\<rparr> else s1)"

text \<open>
  The payload of a \<^verbatim>\<open>sectionchange\<close> event as the handler reads it: \<^verbatim>\<open>detail\<close> may be
  absent, and so may each of its fields.
\<close>

record detail =
  detail_id :: "string option"
  detail_side :: "string option"

text \<open>\<open>width\<close> and \<open>height\<close> are \<^verbatim>\<open>canvas.clientWidth\<close> and \<^verbatim>\<open>canvas.clientHeight\<close>.\<close>

definition handleSectionChange ::
  "detail option \<Rightarrow> real \<Rightarrow> real \<Rightarrow> real \<Rightarrow> canvas_state \<Rightarrow> canvas_state" where
  "handleSectionChange custom width height now s =
     (case (case custom of None \<Rightarrow> None | Some d \<Rightarrow> detail_id d) of
        None \<Rightarrow> s
      | Some i \<Rightarrow>
          if i = [] then s
          else
            let s1 = s\<lparr>activeSection := i\<rparr>;
                contentSide =
                  (case (case custom of None \<Rightarrow> None | Some d \<Rightarrow> detail_side d) of
                     None \<Rightarrow> ''left''
                   | Some sd \<Rightarrow> sd);
                iconSide = (if contentSide = ''left'' then ''right'' else ''left'');
                originX = (if iconSide = ''left'' then width * 0.18 else width * 0.82)
            in pushRipple originX (height * 0.45) 0.65 now s1)"

subsection \<open>One frame\<close>

definition rippleAge :: "real \<Rightarrow> ripple \<Rightarrow> real" where
  "rippleAge timestamp r = (timestamp - start r) / 1000"

text \<open>The factor \<^verbatim>\<open>Math.max(0, 1 - age / ripple.duration)\<close> of the attenuation.\<close>

definition temporalDecay :: "real \<Rightarrow> ripple \<Rightarrow> real" where
  "temporalDecay age r = max 0 (1 - age / duration r)"

text \<open>What one pass of the ripple loop adds to \<^verbatim>\<open>value\<close>.\<close>

definition rippleContribution :: "real \<Rightarrow> real \<Rightarrow> real \<Rightarrow> real \<Rightarrow> ripple \<Rightarrow> real" where
  "rippleContribution timestamp px py cell r =
     (let age = rippleAge timestamp r;
          dx = px + cell * 0.5 - ripple_x r;
          dy = py + cell * 0.5 - ripple_y r;
          dist = sqrt (dx\<^sup>2 + dy\<^sup>2);
          wave = sin (dist * 0.015 - age * speed r * 0.6);
          attenuation = temporalDecay age r * exp (- dist * 0.001)
      in wave * attenuation * strength r * 0.2)"

text \<open>
  The loop \<^verbatim>\<open>for (let r = ripples.length - 1; r >= 0; r -= 1)\<close>; the second argument is
  \<open>r + 1\<close>. It reads the collection and writes \<^verbatim>\<open>value\<close> only.
\<close>

fun rippleLoop :: "real \<Rightarrow> real \<Rightarrow> real \<Rightarrow> real \<Rightarrow> ripple list \<Rightarrow> nat \<Rightarrow> real \<Rightarrow> real" where
  "rippleLoop timestamp px py cell rs 0 v = v"
| "rippleLoop timestamp px py cell rs (Suc r) v =
     rippleLoop timestamp px py cell rs r (v + rippleContribution timestamp px py cell (rs ! r))"

text \<open>
  The composited \<^verbatim>\<open>value\<close> of the cell at \<open>(row, col)\<close>, as it stands after the ripple
  loop. \<open>width\<close> and \<open>height\<close> are the client sizes of the canvas, positive for a canvas
  that is laid out. Reading a typed array outside its bounds gives \<^verbatim>\<open>undefined\<close>, which is
  not \<open>1\<close>.
\<close>

definition cellValue ::
  "real \<Rightarrow> real \<Rightarrow> real \<Rightarrow> nat \<Rightarrow> real \<Rightarrow> 8 word list \<Rightarrow> ripple list \<Rightarrow> nat \<Rightarrow> nat \<Rightarrow> real" where
  "cellValue timestamp width height cols cell maskArray rs row col =
     (let time = timestamp * 0.001;
          py = real row * cell;
          ny = py / height - 0.5;
          px = real col * cell;
          nx = px / width - 0.5;
          idx = row * cols + col;
          baseNoise =
            (sin (real row * 6.1 + real col * 4.6 + time * 0.45) +
             cos (real row * 2.8 - real col * 3.9 + time * 0.35) + 2) * 0.08;
          isStar = (idx < length maskArray \<and> maskArray ! idx = 1);
          value0 =
            sin ((nx + time * 0.08) * 1.9) +
            cos ((ny - time * 0.07) * 2.4) * 0.55 +
            sin ((nx + ny + time * 0.04) * 2.6) * 0.25 +
            (baseNoise - 0.5) * 0.45;
          value1 = (if isStar then value0 + sin (time * 1.2 + nx * 9 + ny * 8) * 0.9
                    else value0)
      in rippleLoop timestamp px py cell rs (length rs) value1)"

text \<open>
  \<^verbatim>\<open>renderFrame\<close>: the grid of composited values it paints from, and the state it leaves.
  The glyph and the colour of a cell are computed from its value and go to the 2D context.
  \<open>rafId\<close> is the handle of the next frame request.
\<close>

definition renderFrame ::
  "real \<Rightarrow> real \<Rightarrow> real \<Rightarrow> nat \<Rightarrow> canvas_state \<Rightarrow> real list list \<times> canvas_state" where
  "renderFrame timestamp width height rafId s =
     (case gridMeta s of
        (cols, rows, cell) \<Rightarrow>
          (map (\<lambda>row. map (\<lambda>col. cellValue timestamp width height cols cell
                                     (starMask s) (ripples s) row col) [0..<cols])
               [0..<rows],
           s\<lparr>animationRef := Some rafId\<rparr>))"

text \<open>
  The effect body after the surface checks: the first resize, the first frame request,
  the start-up ripple.
\<close>

definition mountCanvas ::
  "nat \<Rightarrow> nat \<Rightarrow> (nat \<Rightarrow> real) \<Rightarrow> nat \<Rightarrow> real \<Rightarrow> real \<Rightarrow> real \<Rightarrow> canvas_state" where
  "mountCanvas innerWidth innerHeight rnd rafId width height now =
     (let s1 = handleResize innerWidth innerHeight rnd initialCanvas;
          s2 = s1\<lparr>animationRef := Some rafId\<rparr>
      in pushRipple (width * 0.18) (height * 0.45) 0.4 now s2)"

datatype canvas_event =
    Resize nat nat
  | SectionChange "detail option" real real real
  | Frame real real real nat

fun canvasStep :: "(nat \<Rightarrow> real) \<Rightarrow> canvas_event \<Rightarrow> canvas_state \<Rightarrow> canvas_state" where
  "canvasStep rnd (Resize width height) s = handleResize width height rnd s"
| "canvasStep rnd (SectionChange custom width height now) s =
     handleSectionChange custom width height now s"
| "canvasStep rnd (Frame timestamp width height rafId) s =
     snd (renderFrame timestamp width height rafId s)"

fun canvasRun :: "(nat \<Rightarrow> real) \<Rightarrow> canvas_event list \<Rightarrow> canvas_state \<Rightarrow> canvas_state" where
  "canvasRun rnd [] s = s"
| "canvasRun rnd (ev # evs) s = canvasRun rnd evs (canvasStep rnd ev s)"

section \<open>Example inputs\<close>

text \<open>Three sections, the middle one on the right, and a payload without a side.\<close>

definition sectionA :: element where
  "sectionA = \<lparr>ident = 0, sectionId = Some ''about'', sectionSide = Some ''left''\<rparr>"

definition sectionB :: element where
  "sectionB = \<lparr>ident = 1, sectionId = Some ''tech'', sectionSide = Some ''right''\<rparr>"

definition sectionC :: element where
  "sectionC = \<lparr>ident = 2, sectionId = Some ''events'', sectionSide = Some ''left''\<rparr>"

definition threeSections :: "element list" where
  "threeSections = [sectionA, sectionB, sectionC]"

definition seesA :: "entry list" where
  "seesA = [\<lparr>target = sectionA, isIntersecting = True, intersectionRatio = 0.75\<rparr>]"

definition seesB :: "entry list" where
  "seesB = [\<lparr>target = sectionA, isIntersecting = True, intersectionRatio = 0.5\<rparr>,
            \<lparr>target = sectionB, isIntersecting = True, intersectionRatio = 0.9\<rparr>]"

definition noRandom :: "nat \<Rightarrow> real" where
  "noRandom k = 0"

definition techWithoutSide :: detail where
  "techWithoutSide = \<lparr>detail_id = Some ''tech'', detail_side = None\<rparr>"

definition mounted :: canvas_state where
  "mounted = mountCanvas 1000 800 noRandom 1 1000 800 0"

definition firstRipple :: ripple where
  "firstRipple = \<lparr>ripple_x = 180, ripple_y = 360, start = 0,
                   duration = 2.6, speed = 7.1, strength = 0.4\<rparr>"

definition fiveChanges :: "canvas_event list" where
  "fiveChanges =
     [SectionChange (Some techWithoutSide) 1000 800 100,
      SectionChange (Some techWithoutSide) 1000 800 200,
      SectionChange (Some techWithoutSide) 1000 800 300,
      SectionChange (Some techWithoutSide) 1000 800 400,
      SectionChange (Some techWithoutSide) 1000 800 500]"

section \<open>Properties of the navigator\<close>

text \<open>
  The loop of \<^verbatim>\<open>setActive\<close> writes the active index, the active side and the classes;
  everything else it leaves alone.
\<close>

lemma forEachSection_keeps:
  "isAnimating (forEachSection el secs idx s) = isAnimating s"
  "releaseTimer (forEachSection el secs idx s) = releaseTimer s"
  "wheelResetTimer (forEachSection el secs idx s) = wheelResetTimer s"
  "wheelDelta (forEachSection el secs idx s) = wheelDelta s"
  "touchStartY (forEachSection el secs idx s) = touchStartY s"
  "clock (forEachSection el secs idx s) = clock s"
  "scrolledIntoView (forEachSection el secs idx s) = scrolledIntoView s"
  "published (forEachSection el secs idx s) = published s"
  by (induction el secs idx s rule: forEachSection.induct) (simp_all add: Let_def)

lemma setActive_keeps:
  "isAnimating (setActive secs el s) = isAnimating s"
  "releaseTimer (setActive secs el s) = releaseTimer s"
  "wheelResetTimer (setActive secs el s) = wheelResetTimer s"
  "wheelDelta (setActive secs el s) = wheelDelta s"
  "touchStartY (setActive secs el s) = touchStartY s"
  "clock (setActive secs el s) = clock s"
  "scrolledIntoView (setActive secs el s) = scrolledIntoView s"
  by (simp_all add: setActive_def Let_def forEachSection_keeps split: option.splits)

lemma observerCallback_keeps:
  "isAnimating (observerCallback secs es s) = isAnimating s"
  "releaseTimer (observerCallback secs es s) = releaseTimer s"
  "clock (observerCallback secs es s) = clock s"
  "scrolledIntoView (observerCallback secs es s) = scrolledIntoView s"
  by (simp_all add: observerCallback_def setActive_keeps split: option.splits)

lemma firstFrame_keeps:
  "isAnimating (firstFrame secs s) = isAnimating s"
  "releaseTimer (firstFrame secs s) = releaseTimer s"
  "clock (firstFrame secs s) = clock s"
  "scrolledIntoView (firstFrame secs s) = scrolledIntoView s"
  by (simp_all add: firstFrame_def setActive_keeps split: list.splits)

lemma scrollToIndex_keeps:
  "activeIndex (scrollToIndex secs i s) = activeIndex s"
  "activeSide (scrollToIndex secs i s) = activeSide s"
  "published (scrollToIndex secs i s) = published s"
  "clock (scrollToIndex secs i s) = clock s"
  "touchStartY (scrollToIndex secs i s) = touchStartY s"
  "classActive (scrollToIndex secs i s) = classActive s"
  by (simp_all add: scrollToIndex_def resetWheel_def Let_def)

lemma resetWheel_keeps:
  "activeIndex (resetWheel s) = activeIndex s"
  "activeSide (resetWheel s) = activeSide s"
  "published (resetWheel s) = published s"
  "clock (resetWheel s) = clock s"
  "isAnimating (resetWheel s) = isAnimating s"
  "releaseTimer (resetWheel s) = releaseTimer s"
  "scrolledIntoView (resetWheel s) = scrolledIntoView s"
  "wheelDelta (resetWheel s) = 0"
  "wheelResetTimer (resetWheel s) = None"
  by (simp_all add: resetWheel_def Let_def)

lemma handleWheel_keeps:
  "activeIndex (snd (handleWheel secs dy s)) = activeIndex s"
  "activeSide (snd (handleWheel secs dy s)) = activeSide s"
  "published (snd (handleWheel secs dy s)) = published s"
  "clock (snd (handleWheel secs dy s)) = clock s"
  by (simp_all add: handleWheel_def Let_def scheduleWheelReset_def scrollToIndex_keeps resetWheel_keeps)

lemma handleTouchMove_keeps:
  "handleTouchMove secs ts s = Inr r \<Longrightarrow> activeIndex (snd r) = activeIndex s \<and> activeSide (snd r) = activeSide s \<and> published (snd r) = published s \<and> clock (snd r) = clock s"
  by (auto simp add: handleTouchMove_def Let_def scrollToIndex_keeps split: option.splits list.splits if_splits)

lemma handleTouchStart_keeps:
  "activeIndex (handleTouchStart ts s) = activeIndex s"
  "activeSide (handleTouchStart ts s) = activeSide s"
  "published (handleTouchStart ts s) = published s"
  "clock (handleTouchStart ts s) = clock s"
  "isAnimating (handleTouchStart ts s) = isAnimating s"
  "releaseTimer (handleTouchStart ts s) = releaseTimer s"
  "scrolledIntoView (handleTouchStart ts s) = scrolledIntoView s"
  by (simp_all add: handleTouchStart_def resetWheel_keeps split: list.splits)

lemma elapse_keeps:
  "activeIndex (elapse d s) = activeIndex s"
  "activeSide (elapse d s) = activeSide s"
  "published (elapse d s) = published s"
  "scrolledIntoView (elapse d s) = scrolledIntoView s"
  "clock (elapse d s) = clock s + d"
  by (simp_all add: elapse_def Let_def unlockScroll_def wheelResetCallback_def split: option.splits)

text \<open>
  The release timer: it does not fire before its deadline, and it unlocks at the deadline.
\<close>

lemma elapse_before_deadline:
  "releaseTimer s = Some dl \<Longrightarrow> clock s + d < dl \<Longrightarrow>
     isAnimating (elapse d s) = isAnimating s \<and> releaseTimer (elapse d s) = Some dl"
  by (simp add: elapse_def Let_def wheelResetCallback_def split: option.splits)

lemma elapse_at_deadline:
  "releaseTimer s = Some dl \<Longrightarrow> dl \<le> clock s + d \<Longrightarrow>
     \<not> isAnimating (elapse d s) \<and> releaseTimer (elapse d s) = None"
  by (simp add: elapse_def Let_def wheelResetCallback_def unlockScroll_def split: option.splits)

lemma handleWheel_locked: "isAnimating s \<Longrightarrow> handleWheel secs dy s = (True, s)"
  by (simp add: handleWheel_def)

lemma handleTouchMove_locked: "isAnimating s \<Longrightarrow> handleTouchMove secs ts s = Inr (False, s)"
  by (simp add: handleTouchMove_def split: option.splits)

lemma scrollToIndex_locks:
  "0 \<le> i \<Longrightarrow> i < int (length secs) \<Longrightarrow>
    isAnimating (scrollToIndex secs i s) \<and> releaseTimer (scrollToIndex secs i s) = Some (clock s + SCROLL_LOCK_MS)"
  by (simp add: scrollToIndex_def resetWheel_def Let_def)

text \<open>
  A locked navigator stays locked, with the same deadline, through every run of events
  that ends before the deadline.
\<close>

lemma step_locked:
  assumes "isAnimating s" "releaseTimer s = Some dl" "clock s + elapsed [ev] < dl"
  shows "isAnimating (step secs ev s) \<and> releaseTimer (step secs ev s) = Some dl
         \<and> clock (step secs ev s) = clock s + elapsed [ev]"
proof (cases ev)
  case (Wheel dy)
  then show ?thesis using assms by (simp add: handleWheel_locked)
next
  case (TouchStart ts)
  then show ?thesis using assms by (simp add: handleTouchStart_keeps)
next
  case (TouchMove ts)
  then show ?thesis using assms by (simp add: handleTouchMove_locked)
next
  case TouchEnd
  then show ?thesis using assms by (simp add: handleTouchEnd_def)
next
  case (Intersection es)
  then show ?thesis using assms by (simp add: observerCallback_keeps)
next
  case FirstFrame
  then show ?thesis using assms by (simp add: firstFrame_keeps)
next
  case (Elapse d)
  then show ?thesis using assms elapse_before_deadline[of s dl d] by (simp add: elapse_keeps)
qed

lemma elapsed_Cons: "elapsed (ev # evs) = elapsed [ev] + elapsed evs"
  by (cases ev) simp_all

lemma run_locked:
  "isAnimating s \<Longrightarrow> releaseTimer s = Some dl \<Longrightarrow> clock s + elapsed evs < dl \<Longrightarrow>
     isAnimating (run secs evs s) \<and> releaseTimer (run secs evs s) = Some dl
     \<and> clock (run secs evs s) = clock s + elapsed evs"
proof (induction evs arbitrary: s)
  case Nil
  then show ?case by simp
next
  case (Cons ev evs)
  have e: "elapsed (ev # evs) = elapsed [ev] + elapsed evs" by (rule elapsed_Cons)
  from Cons.prems e have "clock s + elapsed [ev] < dl" by simp
  with Cons.prems have st: "isAnimating (step secs ev s)" "releaseTimer (step secs ev s) = Some dl"
      "clock (step secs ev s) = clock s + elapsed [ev]"
    using step_locked[of s dl ev secs] by simp_all
  from st(3) Cons.prems(3) e have "clock (step secs ev s) + elapsed evs < dl" by simp
  from Cons.IH[OF st(1) st(2) this] st(3) e show ?case by simp
qed

text \<open>
  Only the first frame and the visibility notifications reach \<^verbatim>\<open>setActive\<close>.
\<close>

lemma step_keeps_active:
  assumes "ev \<noteq> FirstFrame" "\<And>es. ev \<noteq> Intersection es"
  shows "activeIndex (step sections ev s) = activeIndex s \<and>
         activeSide (step sections ev s) = activeSide s \<and>
         published (step sections ev s) = published s"
proof (cases ev)
  case (Wheel dy)
  then show ?thesis by (simp add: handleWheel_keeps)
next
  case (TouchStart ts)
  then show ?thesis by (simp add: handleTouchStart_keeps)
next
  case (TouchMove ts)
  then show ?thesis using handleTouchMove_keeps[of sections ts s]
    by (simp split: sum.splits)
next
  case TouchEnd
  then show ?thesis by (simp add: handleTouchEnd_def)
next
  case (Intersection es)
  then show ?thesis using assms by simp
next
  case FirstFrame
  then show ?thesis using assms by simp
next
  case (Elapse d)
  then show ?thesis by (simp add: elapse_keeps)
qed

lemma setActive_published:
  "published (setActive sections el s) =
     published s @ (case sectionId el of None \<Rightarrow> []
                    | Some i \<Rightarrow> if i = [] then [] else [(i, activeSide (setActive sections el s))])"
  by (simp add: setActive_def Let_def forEachSection_keeps split: option.splits)

lemma setActive_index_change:
  "activeIndex (setActive sections el s) \<noteq> activeIndex s \<Longrightarrow>
     \<exists>i. sectionId el = Some i \<and> i \<noteq> []"
  by (auto simp add: setActive_def split: option.splits if_splits)

section \<open>Properties of the canvas\<close>

declare starLoop.simps [simp del]

lemma starLoop_length:
  "length (fst (starLoop i starCount totalCells rnd (maskArray, calls))) = length maskArray"
proof (induction i starCount totalCells rnd "(maskArray, calls)" arbitrary: maskArray calls
    rule: starLoop.induct)
  case (1 i starCount totalCells rnd maskArray calls)
  show ?case
  proof (cases "i < starCount")
    case True
    then show ?thesis
      using "1"[OF True refl refl] by (subst starLoop.simps) (simp add: Let_def)
  next
    case False
    then show ?thesis by (subst starLoop.simps) simp
  qed
qed

lemma starLoop_calls:
  "snd (starLoop i starCount totalCells rnd (maskArray, calls)) = calls + nat (starCount - i)"
proof (induction i starCount totalCells rnd "(maskArray, calls)" arbitrary: maskArray calls
    rule: starLoop.induct)
  case (1 i starCount totalCells rnd maskArray calls)
  show ?case
  proof (cases "i < starCount")
    case True
    then show ?thesis
      using "1"[OF True refl refl] by (subst starLoop.simps) (simp add: Let_def nat_diff_distrib)
  next
    case False
    then show ?thesis by (subst starLoop.simps) simp
  qed
qed

lemma regenerateStars_keeps:
  "ripples (regenerateStars cols rows rnd s) = ripples s"
  "activeSection (regenerateStars cols rows rnd s) = activeSection s"
  "gridMeta (regenerateStars cols rows rnd s) = gridMeta s"
  by (simp_all add: regenerateStars_def Let_def)

lemma handleResize_keeps:
  "ripples (handleResize width height rnd s) = ripples s"
  "activeSection (handleResize width height rnd s) = activeSection s"
  by (simp_all add: handleResize_def Let_def regenerateStars_keeps)

lemma renderFrame_state:
  "snd (renderFrame timestamp width height rafId s) = s\<lparr>animationRef := Some rafId\<rparr>"
  by (simp add: renderFrame_def split: prod.splits)

lemma pushRipple_ripples:
  "ripples (pushRipple originX originY str now s) =
     (if MAX_RIPPLES \<le> length (ripples s) then tl (ripples s) else ripples s) @
     [\<lparr>ripple_x = originX, ripple_y = originY, start = now,
       duration = 2.6, speed = 7.1, strength = str\<rparr>]"
  by (cases "ripples s") (simp_all add: pushRipple_def Let_def MAX_RIPPLES_def)

lemma handleSectionChange_ripples:
  "ripples (handleSectionChange custom width height now s) = ripples s
   \<or> (\<exists>originX. ripples (handleSectionChange custom width height now s) =
        (if MAX_RIPPLES \<le> length (ripples s) then tl (ripples s) else ripples s) @
        [\<lparr>ripple_x = originX, ripple_y = height * 0.45, start = now,
          duration = 2.6, speed = 7.1, strength = 0.65\<rparr>])"
  by (simp add: handleSectionChange_def Let_def pushRipple_ripples split: option.splits)

lemma canvasStep_ripples:
  "\<exists>added. length added \<le> 1 \<and> (\<forall>r \<in> set added. duration r = 2.6) \<and>
     ripples (canvasStep rnd ev s) =
       (if MAX_RIPPLES \<le> length (ripples s) \<and> added \<noteq> [] then tl (ripples s) else ripples s)
       @ added"
proof (cases ev)
  case (Resize width height)
  then show ?thesis by (intro exI[of _ "[]"]) (simp add: handleResize_keeps)
next
  case (SectionChange custom width height now)
  from handleSectionChange_ripples[of custom width height now s]
  show ?thesis
  proof
    assume "ripples (handleSectionChange custom width height now s) = ripples s"
    with SectionChange show ?thesis by (intro exI[of _ "[]"]) simp
  next
    assume "\<exists>originX. ripples (handleSectionChange custom width height now s) =
        (if MAX_RIPPLES \<le> length (ripples s) then tl (ripples s) else ripples s) @
        [\<lparr>ripple_x = originX, ripple_y = height * 0.45, start = now,
          duration = 2.6, speed = 7.1, strength = 0.65\<rparr>]"
    then obtain originX where "ripples (handleSectionChange custom width height now s) =
        (if MAX_RIPPLES \<le> length (ripples s) then tl (ripples s) else ripples s) @
        [\<lparr>ripple_x = originX, ripple_y = height * 0.45, start = now,
          duration = 2.6, speed = 7.1, strength = 0.65\<rparr>]" ..
    with SectionChange show ?thesis
      by (intro exI[of _ "[\<lparr>ripple_x = originX, ripple_y = height * 0.45, start = now,
          duration = 2.6, speed = 7.1, strength = 0.65\<rparr>]"]) simp
  qed
next
  case (Frame timestamp width height rafId)
  then show ?thesis by (intro exI[of _ "[]"]) (simp add: renderFrame_state)
qed

lemma in_tl_in_list: "r \<in> set (tl xs) \<Longrightarrow> r \<in> set xs"
  by (cases xs) simp_all

lemma canvasStep_inv:
  assumes "length (ripples s) \<le> MAX_RIPPLES" "\<forall>r \<in> set (ripples s). duration r = 2.6"
  shows "length (ripples (canvasStep rnd ev s)) \<le> MAX_RIPPLES
         \<and> (\<forall>r \<in> set (ripples (canvasStep rnd ev s)). duration r = 2.6)"
proof -
  from canvasStep_ripples[of rnd ev s] obtain added where
    a: "length added \<le> 1" "\<forall>r \<in> set added. duration r = 2.6"
    "ripples (canvasStep rnd ev s) =
       (if MAX_RIPPLES \<le> length (ripples s) \<and> added \<noteq> [] then tl (ripples s) else ripples s)
       @ added" by blast
  have "length (ripples (canvasStep rnd ev s)) \<le> MAX_RIPPLES"
    using a(1) a(3) assms(1) by (cases added) (auto simp: MAX_RIPPLES_def)
  moreover have "\<forall>r \<in> set (ripples (canvasStep rnd ev s)). duration r = 2.6"
    using a(2) a(3) assms(2) by (auto dest: in_tl_in_list)
  ultimately show ?thesis by blast
qed

lemma canvasRun_inv:
  "length (ripples s) \<le> MAX_RIPPLES \<Longrightarrow> \<forall>r \<in> set (ripples s). duration r = 2.6 \<Longrightarrow>
   length (ripples (canvasRun rnd evs s)) \<le> MAX_RIPPLES
   \<and> (\<forall>r \<in> set (ripples (canvasRun rnd evs s)). duration r = 2.6)"
proof (induction evs arbitrary: s)
  case Nil
  then show ?case by simp
next
  case (Cons ev evs)
  from canvasStep_inv[OF Cons.prems, of rnd ev]
  have "length (ripples (canvasStep rnd ev s)) \<le> MAX_RIPPLES"
    "\<forall>r \<in> set (ripples (canvasStep rnd ev s)). duration r = 2.6" by simp_all
  from Cons.IH[OF this] show ?case by simp
qed

lemma mountCanvas_ripples:
  "ripples (mountCanvas innerWidth innerHeight rnd rafId width height now) =
     [\<lparr>ripple_x = width * 0.18, ripple_y = height * 0.45, start = now,
       duration = 2.6, speed = 7.1, strength = 0.4\<rparr>]"
  by (simp add: mountCanvas_def Let_def pushRipple_ripples handleResize_keeps
      initialCanvas_def MAX_RIPPLES_def)

lemma reachable_inv:
  "length (ripples (canvasRun rnd evs (mountCanvas innerWidth innerHeight rnd rafId width height now)))
     \<le> MAX_RIPPLES
   \<and> (\<forall>r \<in> set (ripples (canvasRun rnd evs
          (mountCanvas innerWidth innerHeight rnd rafId width height now))). duration r = 2.6)"
  by (rule canvasRun_inv) (simp_all add: mountCanvas_ripples MAX_RIPPLES_def)

lemma temporalDecay_expired: "0 < duration r \<Longrightarrow> duration r \<le> age \<Longrightarrow> temporalDecay age r = 0"
  by (simp add: temporalDecay_def max_def divide_simps)

lemma temporalDecay_nonneg: "0 \<le> temporalDecay age r"
  by (simp add: temporalDecay_def)

lemma temporalDecay_mono:
  "0 < duration r \<Longrightarrow> age \<le> age' \<Longrightarrow> temporalDecay age' r \<le> temporalDecay age r"
proof -
  assume d: "0 < duration r" and a: "age \<le> age'"
  then have "age / duration r \<le> age' / duration r" by (simp add: divide_right_mono)
  then show ?thesis by (simp add: temporalDecay_def max_def)
qed

lemma rippleContribution_expired:
  "0 < duration r \<Longrightarrow> duration r \<le> rippleAge timestamp r \<Longrightarrow>
     rippleContribution timestamp px py cell r = 0"
  by (simp add: rippleContribution_def Let_def temporalDecay_expired)

lemma atCapacity_ripples:
  "ripples (canvasRun noRandom fiveChanges mounted) =
     [firstRipple,
      \<lparr>ripple_x = 820, ripple_y = 360, start = 100, duration = 2.6, speed = 7.1, strength = 0.65\<rparr>,
      \<lparr>ripple_x = 820, ripple_y = 360, start = 200, duration = 2.6, speed = 7.1, strength = 0.65\<rparr>,
      \<lparr>ripple_x = 820, ripple_y = 360, start = 300, duration = 2.6, speed = 7.1, strength = 0.65\<rparr>,
      \<lparr>ripple_x = 820, ripple_y = 360, start = 400, duration = 2.6, speed = 7.1, strength = 0.65\<rparr>,
      \<lparr>ripple_x = 820, ripple_y = 360, start = 500, duration = 2.6, speed = 7.1, strength = 0.65\<rparr>]"
  by (simp add: fiveChanges_def mounted_def handleSectionChange_def techWithoutSide_def
      pushRipple_ripples mountCanvas_ripples firstRipple_def MAX_RIPPLES_def Let_def)

section \<open>The claims\<close>

subsection \<open>C1: publications and index changes\<close>

text \<open>
  C1 as stated fails. After the first frame the active section is the first one. A
  visibility notification that reports this same section as the most visible one (the
  observer has three thresholds, so this is what crossing the next threshold sends) leaves
  the active index at 0 and publishes the event a second time.
\<close>

theorem republish_counterexample:
  "activeIndex (firstFrame threeSections initialState) = 0
   \<and> threeSections ! 0 = sectionA
   \<and> visibleEntry seesA
       = Some \<lparr>target = sectionA, isIntersecting = True, intersectionRatio = 0.75\<rparr>
   \<and> published (firstFrame threeSections initialState) = [(''about'', LeftSide)]
   \<and> activeIndex (observerCallback threeSections seesA (firstFrame threeSections initialState)) = 0
   \<and> published (observerCallback threeSections seesA (firstFrame threeSections initialState))
       = [(''about'', LeftSide), (''about'', LeftSide)]"
  by (simp add: firstFrame_def observerCallback_def visibleEntry_def setActive_def seesA_def
      threeSections_def sectionA_def sectionB_def sectionC_def initialState_def)

text \<open>
  C1, as amended: the navigator publishes at most one event per visibility notification.
  It publishes exactly one whenever the most visible intersecting entry of the
  notification is an element with a non-empty id, whether or not that element is already
  the active section, so the event is repeated while the active index is unchanged. A
  notification without an intersecting entry changes nothing, and every change of the
  active index comes with exactly one publication.
\<close>

theorem one_publication_per_notification:
  "length (published (observerCallback sections entries s)) \<le> length (published s) + 1
   \<and> (\<forall>visible i. visibleEntry entries = Some visible \<and> sectionId (target visible) = Some i
          \<and> i \<noteq> [] \<longrightarrow>
        published (observerCallback sections entries s)
          = published s @ [(i, activeSide (observerCallback sections entries s))])
   \<and> (visibleEntry entries = None \<longrightarrow> observerCallback sections entries s = s)
   \<and> (activeIndex (observerCallback sections entries s) \<noteq> activeIndex s \<longrightarrow>
        length (published (observerCallback sections entries s)) = length (published s) + 1)"
proof (intro conjI allI impI)
  show "length (published (observerCallback sections entries s)) \<le> length (published s) + 1"
    by (simp add: observerCallback_def setActive_published split: option.splits)
next
  fix visible i
  assume "visibleEntry entries = Some visible \<and> sectionId (target visible) = Some i \<and> i \<noteq> []"
  then show "published (observerCallback sections entries s)
          = published s @ [(i, activeSide (observerCallback sections entries s))]"
    by (simp add: observerCallback_def setActive_published)
next
  assume "visibleEntry entries = None"
  then show "observerCallback sections entries s = s"
    by (simp add: observerCallback_def)
next
  assume a: "activeIndex (observerCallback sections entries s) \<noteq> activeIndex s"
  then obtain visible where v: "visibleEntry entries = Some visible"
    by (cases "visibleEntry entries") (simp_all add: observerCallback_def)
  with a have "activeIndex (setActive sections (target visible) s) \<noteq> activeIndex s"
    by (simp add: observerCallback_def)
  from setActive_index_change[OF this] obtain i where "sectionId (target visible) = Some i" "i \<noteq> []"
    by blast
  with v show "length (published (observerCallback sections entries s)) = length (published s) + 1"
    by (simp add: observerCallback_def setActive_published)
qed

text \<open>
  The theorem at two notifications: one that moves the active section from the first to
  the second, and an empty one.
\<close>

theorem one_publication_per_notification_witness:
  "visibleEntry seesB
       = Some \<lparr>target = sectionB, isIntersecting = True, intersectionRatio = 0.9\<rparr>
   \<and> activeIndex (observerCallback threeSections seesB (firstFrame threeSections initialState)) = 1
   \<and> activeIndex (firstFrame threeSections initialState) = 0
   \<and> published (observerCallback threeSections seesB (firstFrame threeSections initialState))
       = [(''about'', LeftSide), (''tech'', RightSide)]
   \<and> visibleEntry [] = None
   \<and> observerCallback threeSections [] initialState = initialState"
  using one_publication_per_notification [of threeSections seesB "firstFrame threeSections initialState"]
    one_publication_per_notification [of threeSections "[]" initialState]
  by (simp add: firstFrame_def observerCallback_def visibleEntry_def setActive_def seesB_def
      threeSections_def sectionA_def sectionB_def sectionC_def initialState_def)

subsection \<open>C2: the lock\<close>

text \<open>
  C2: while the lock flag is true, a wheel event is consumed (its default is prevented)
  and a touch-move is ignored, both leaving the whole state as it is, so neither the wheel
  accumulator nor the active index changes and no transition starts. After an in-range
  \<^verbatim>\<open>scrollToIndex\<close> the lock holds through every run of events that takes less than
  \<open>SCROLL_LOCK_MS\<close> = 900 ms, whatever the events are, and it is released as soon as
  the time that has passed reaches 900 ms.
\<close>

theorem lock_suppresses_input_and_expires:
  "(isAnimating s \<longrightarrow>
      handleWheel sections deltaY s = (True, s)
      \<and> handleTouchMove sections touches s = Inr (False, s))
   \<and> (0 \<le> index \<and> index < int (length sections)
      \<and> elapsed evs < SCROLL_LOCK_MS \<and> SCROLL_LOCK_MS \<le> elapsed evs + d \<longrightarrow>
      isAnimating (run sections evs (scrollToIndex sections index s))
      \<and> \<not> isAnimating (elapse d (run sections evs (scrollToIndex sections index s))))"
proof (intro conjI impI)
  assume "isAnimating s"
  then show "handleWheel sections deltaY s = (True, s)"
    by (rule handleWheel_locked)
next
  assume "isAnimating s"
  then show "handleTouchMove sections touches s = Inr (False, s)"
    by (rule handleTouchMove_locked)
next
  assume a: "0 \<le> index \<and> index < int (length sections)
      \<and> elapsed evs < SCROLL_LOCK_MS \<and> SCROLL_LOCK_MS \<le> elapsed evs + d"
  define s1 where "s1 = scrollToIndex sections index s"
  define dl where "dl = clock s + SCROLL_LOCK_MS"
  from a have l: "isAnimating s1" "releaseTimer s1 = Some dl"
    using scrollToIndex_locks[of index sections s] by (simp_all add: s1_def dl_def)
  have c: "clock s1 = clock s" by (simp add: s1_def scrollToIndex_keeps)
  with a have "clock s1 + elapsed evs < dl" by (simp add: dl_def)
  from run_locked[OF l this]
  have r: "isAnimating (run sections evs s1)" "releaseTimer (run sections evs s1) = Some dl"
    "clock (run sections evs s1) = clock s1 + elapsed evs" by simp_all
  from r(3) c a have "dl \<le> clock (run sections evs s1) + d" by (simp add: dl_def)
  from elapse_at_deadline[OF r(2) this] r(1)
  show "isAnimating (run sections evs (scrollToIndex sections index s))"
    and "\<not> isAnimating (elapse d (run sections evs (scrollToIndex sections index s)))"
    by (simp_all add: s1_def)
qed

text \<open>
  The theorem on a run of wheel, touch and visibility events that takes 899 ms, followed
  by one more millisecond.
\<close>

theorem lock_suppresses_input_and_expires_witness:
  "isAnimating (scrollToIndex threeSections 1 initialState)
   \<and> handleWheel threeSections 200 (scrollToIndex threeSections 1 initialState)
       = (True, scrollToIndex threeSections 1 initialState)
   \<and> handleTouchMove threeSections [100] (scrollToIndex threeSections 1 initialState)
       = Inr (False, scrollToIndex threeSections 1 initialState)
   \<and> isAnimating (run threeSections
         [Wheel 200, Elapse 300, TouchStart [500], TouchMove [100], Intersection seesB,
          Elapse 599]
         (scrollToIndex threeSections 1 initialState))
   \<and> \<not> isAnimating (elapse 1 (run threeSections
         [Wheel 200, Elapse 300, TouchStart [500], TouchMove [100], Intersection seesB,
          Elapse 599]
         (scrollToIndex threeSections 1 initialState)))"
  using lock_suppresses_input_and_expires
    [of "scrollToIndex threeSections 1 initialState" threeSections 200 "[100]" 1
        "[Wheel 200, Elapse 300, TouchStart [500], TouchMove [100], Intersection seesB,
          Elapse 599]" 1]
    lock_suppresses_input_and_expires
    [of initialState threeSections 200 "[100]" 1
        "[Wheel 200, Elapse 300, TouchStart [500], TouchMove [100], Intersection seesB,
          Elapse 599]" 1]
  by (simp add: scrollToIndex_def resetWheel_def threeSections_def SCROLL_LOCK_MS_def initialState_def)

subsection \<open>C3: expired ripples\<close>

text \<open>
  C3 as stated fails. The start-up ripple is created at time 0 with a duration of 2.6 s.
  The frame at 10000 ms finds it at the age of 10 s and leaves it in the collection.
\<close>

theorem expired_ripple_retained_counterexample:
  "ripples (snd (renderFrame 10000 1000 800 2 mounted)) = [firstRipple]
   \<and> duration firstRipple < rippleAge 10000 firstRipple"
  by (simp add: renderFrame_state mounted_def mountCanvas_ripples firstRipple_def rippleAge_def)

text \<open>
  C3, as amended: no ripple is removed because of its age. A frame leaves the collection
  as it is, whatever the ages of its ripples. Every event appends at most one ripple, and
  a ripple leaves the collection in one way only: it is the oldest one when a ripple is
  appended to a collection that is at capacity.
\<close>

theorem ripples_leave_only_by_eviction:
  "ripples (snd (renderFrame timestamp width height rafId s)) = ripples s
   \<and> (\<exists>added. length added \<le> 1 \<and> ripples (canvasStep rnd ev s) =
         (if MAX_RIPPLES \<le> length (ripples s) \<and> added \<noteq> [] then tl (ripples s)
          else ripples s) @ added)"
proof
  show "ripples (snd (renderFrame timestamp width height rafId s)) = ripples s"
    by (simp add: renderFrame_state)
next
  from canvasStep_ripples [of rnd ev s]
  show "\<exists>added. length added \<le> 1 \<and> ripples (canvasStep rnd ev s) =
         (if MAX_RIPPLES \<le> length (ripples s) \<and> added \<noteq> [] then tl (ripples s)
          else ripples s) @ added"
    by blast
qed

subsection \<open>C4: capacity and eviction order\<close>

text \<open>
  C4: the capacity is 6. An insertion into a collection within capacity gives a
  collection within capacity; at capacity it removes the head of the collection, which is
  the oldest ripple, and nothing else, and appends the new ripple at the end; below capacity
  it only appends. The collection is within capacity in every state the component reaches
  from its mounting.
\<close>

theorem ripple_capacity_fifo:
  "MAX_RIPPLES = 6
   \<and> (length (ripples s) \<le> MAX_RIPPLES \<longrightarrow>
        length (ripples (pushRipple originX originY str now s)) \<le> MAX_RIPPLES)
   \<and> (length (ripples s) = MAX_RIPPLES \<longrightarrow>
        ripples (pushRipple originX originY str now s) =
          tl (ripples s) @ [\<lparr>ripple_x = originX, ripple_y = originY, start = now,
                              duration = 2.6, speed = 7.1, strength = str\<rparr>])
   \<and> (length (ripples s) < MAX_RIPPLES \<longrightarrow>
        ripples (pushRipple originX originY str now s) =
          ripples s @ [\<lparr>ripple_x = originX, ripple_y = originY, start = now,
                         duration = 2.6, speed = 7.1, strength = str\<rparr>])
   \<and> length (ripples (canvasRun rnd evs
         (mountCanvas innerWidth innerHeight rnd rafId width height now0))) \<le> MAX_RIPPLES"
proof (intro conjI impI)
  show "MAX_RIPPLES = 6" by (simp add: MAX_RIPPLES_def)
next
  assume "length (ripples s) \<le> MAX_RIPPLES"
  then show "length (ripples (pushRipple originX originY str now s)) \<le> MAX_RIPPLES"
    by (simp add: pushRipple_ripples MAX_RIPPLES_def)
next
  assume "length (ripples s) = MAX_RIPPLES"
  then show "ripples (pushRipple originX originY str now s) =
          tl (ripples s) @ [\<lparr>ripple_x = originX, ripple_y = originY, start = now,
                              duration = 2.6, speed = 7.1, strength = str\<rparr>]"
    by (simp add: pushRipple_ripples)
next
  assume "length (ripples s) < MAX_RIPPLES"
  then show "ripples (pushRipple originX originY str now s) =
          ripples s @ [\<lparr>ripple_x = originX, ripple_y = originY, start = now,
                         duration = 2.6, speed = 7.1, strength = str\<rparr>]"
    by (simp add: pushRipple_ripples)
next
  show "length (ripples (canvasRun rnd evs
         (mountCanvas innerWidth innerHeight rnd rafId width height now0))) \<le> MAX_RIPPLES"
    using reachable_inv by blast
qed

text \<open>
  The theorem on the collection after the start-up ripple and five section changes, which
  is at capacity with the start-up ripple as its oldest, and on the empty collection.
\<close>

theorem ripple_capacity_fifo_witness:
  "length (ripples (canvasRun noRandom fiveChanges mounted)) = MAX_RIPPLES
   \<and> hd (ripples (canvasRun noRandom fiveChanges mounted)) = firstRipple
   \<and> ripples (pushRipple 180 360 1.4 600 (canvasRun noRandom fiveChanges mounted)) =
       tl (ripples (canvasRun noRandom fiveChanges mounted)) @
       [\<lparr>ripple_x = 180, ripple_y = 360, start = 600, duration = 2.6, speed = 7.1,
         strength = 1.4\<rparr>]
   \<and> length (ripples (pushRipple 180 360 1.4 600 (canvasRun noRandom fiveChanges mounted)))
       \<le> MAX_RIPPLES
   \<and> length (ripples initialCanvas) < MAX_RIPPLES
   \<and> ripples (pushRipple 180 360 0.4 0 initialCanvas) = [firstRipple]"
proof -
  have c: "length (ripples (canvasRun noRandom fiveChanges mounted)) = MAX_RIPPLES"
    by (simp add: atCapacity_ripples MAX_RIPPLES_def)
  have h: "hd (ripples (canvasRun noRandom fiveChanges mounted)) = firstRipple"
    by (simp add: atCapacity_ripples)
  have i: "length (ripples initialCanvas) < MAX_RIPPLES"
    by (simp add: initialCanvas_def MAX_RIPPLES_def)
  have e: "ripples initialCanvas @
       [\<lparr>ripple_x = 180, ripple_y = 360, start = 0, duration = 2.6, speed = 7.1,
         strength = 0.4\<rparr>] = [firstRipple]"
    by (simp add: initialCanvas_def firstRipple_def)
  from c i have l: "length (ripples (canvasRun noRandom fiveChanges mounted)) \<le> MAX_RIPPLES"
    by simp
  from c l h i e
    ripple_capacity_fifo
      [of "canvasRun noRandom fiveChanges mounted" 180 360 "1.4" 600 noRandom "[]" 0 0 0 0 0 0]
    ripple_capacity_fifo [of initialCanvas 180 360 "0.4" 0 noRandom "[]" 0 0 0 0 0 0]
  show ?thesis by metis
qed

subsection \<open>C5: the contribution of an expired ripple\<close>

text \<open>
  C5: for every ripple of a collection that the component reaches from its mounting, at
  every cell, the ripple adds exactly zero to the value of the cell once its age is at
  least its duration; the temporal decay factor is zero from then on, is never negative,
  and does not increase with the age.
\<close>

theorem expired_ripple_contributes_zero:
  "r \<in> set (ripples (canvasRun rnd evs
        (mountCanvas innerWidth innerHeight rnd rafId width height now0))) \<Longrightarrow>
   (duration r \<le> rippleAge timestamp r \<longrightarrow> rippleContribution timestamp px py cell r = 0)
   \<and> (duration r \<le> age \<longrightarrow> temporalDecay age r = 0)
   \<and> 0 \<le> temporalDecay age r
   \<and> (age \<le> age' \<longrightarrow> temporalDecay age' r \<le> temporalDecay age r)"
proof -
  assume "r \<in> set (ripples (canvasRun rnd evs
        (mountCanvas innerWidth innerHeight rnd rafId width height now0)))"
  with reachable_inv[of rnd evs innerWidth innerHeight rafId width height now0]
  have "duration r = 2.6" by blast
  then have d: "0 < duration r" by simp
  show ?thesis
    using rippleContribution_expired[OF d] temporalDecay_expired[OF d]
      temporalDecay_nonneg temporalDecay_mono[OF d] by blast
qed

text \<open>
  The theorem on the start-up ripple, at the frame where its age equals its duration.
\<close>

theorem expired_ripple_contributes_zero_witness:
  "firstRipple \<in> set (ripples (canvasRun noRandom [] mounted))
   \<and> duration firstRipple \<le> rippleAge 2600 firstRipple
   \<and> rippleContribution 2600 36 54 18 firstRipple = 0
   \<and> temporalDecay 3 firstRipple = 0
   \<and> 0 \<le> temporalDecay 1 firstRipple
   \<and> temporalDecay 2 firstRipple \<le> temporalDecay 1 firstRipple"
proof -
  have m: "firstRipple \<in> set (ripples (canvasRun noRandom [] mounted))"
    by (simp add: mounted_def mountCanvas_ripples firstRipple_def)
  have a: "duration firstRipple \<le> rippleAge 2600 firstRipple"
    by (simp add: firstRipple_def rippleAge_def)
  have b: "duration firstRipple \<le> 3" "(1::real) \<le> 2" by (simp_all add: firstRipple_def)
  from m a b expired_ripple_contributes_zero
    [of firstRipple noRandom "[]" 1000 800 1 1000 800 0 2600 36 54 18 3]
    expired_ripple_contributes_zero
    [of firstRipple noRandom "[]" 1000 800 1 1000 800 0 2600 36 54 18 1 2]
  show ?thesis by (simp add: mounted_def)
qed

subsection \<open>C6: a target out of range\<close>

text \<open>
  C6: \<^verbatim>\<open>scrollToIndex\<close> with an index below 0, or at or above the number of sections,
  returns the state it was given: the lock flag, the wheel accumulator, both timers, the
  active index and the active side keep their values, and no scroll request is logged.
  This holds for every list of sections.
\<close>

theorem scrollToIndex_out_of_range_noop:
  "index < 0 \<or> int (length sections) \<le> index \<Longrightarrow> scrollToIndex sections index s = s"
  by (auto simp: scrollToIndex_def)

text \<open>
  The theorem on three sections with the indices 3 and -1, in a locked state.
\<close>

theorem scrollToIndex_out_of_range_noop_witness:
  "scrollToIndex threeSections 3 (scrollToIndex threeSections 1 initialState)
     = scrollToIndex threeSections 1 initialState
   \<and> scrollToIndex threeSections (- 1) (scrollToIndex threeSections 1 initialState)
     = scrollToIndex threeSections 1 initialState"
  using scrollToIndex_out_of_range_noop [of 3 threeSections "scrollToIndex threeSections 1 initialState"]
    scrollToIndex_out_of_range_noop [of "- 1" threeSections "scrollToIndex threeSections 1 initialState"]
  by (simp add: threeSections_def)

subsection \<open>C7: the wheel threshold\<close>

text \<open>
  C7: a wheel event that finds the navigator locked, or that leaves the magnitude of the
  accumulator below \<open>WHEEL_TRIGGER\<close> = 80, requests no scroll and touches neither the
  lock nor the release timer, so \<^verbatim>\<open>scrollToIndex\<close> was not invoked. A wheel event that
  brings the magnitude to the threshold in an unlocked navigator is consumed and leaves
  the accumulator at 0 with no reset timer pending, wherever the target lies.
\<close>

theorem wheel_threshold_and_reset:
  "(isAnimating s \<or> \<bar>wheelDelta s + deltaY\<bar> < WHEEL_TRIGGER \<longrightarrow>
      scrolledIntoView (snd (handleWheel sections deltaY s)) = scrolledIntoView s
      \<and> isAnimating (snd (handleWheel sections deltaY s)) = isAnimating s
      \<and> releaseTimer (snd (handleWheel sections deltaY s)) = releaseTimer s)
   \<and> (\<not> isAnimating s \<and> WHEEL_TRIGGER \<le> \<bar>wheelDelta s + deltaY\<bar> \<longrightarrow>
      fst (handleWheel sections deltaY s)
      \<and> wheelDelta (snd (handleWheel sections deltaY s)) = 0
      \<and> wheelResetTimer (snd (handleWheel sections deltaY s)) = None)"
  by (auto simp add: handleWheel_def Let_def scheduleWheelReset_def resetWheel_keeps)

text \<open>
  The theorem on three wheel events in the initial state: below the threshold, over it
  with the target in range, and over it with the target -1.
\<close>

theorem wheel_threshold_and_reset_witness:
  "scrolledIntoView (snd (handleWheel threeSections 50 initialState)) = []
   \<and> wheelDelta (snd (handleWheel threeSections 50 initialState)) = 50
   \<and> scrolledIntoView (snd (handleWheel threeSections 90 initialState)) = [sectionB]
   \<and> wheelDelta (snd (handleWheel threeSections 90 initialState)) = 0
   \<and> scrolledIntoView (snd (handleWheel threeSections (- 90) initialState)) = []
   \<and> wheelDelta (snd (handleWheel threeSections (- 90) initialState)) = 0"
  using wheel_threshold_and_reset [of initialState 50 threeSections]
    wheel_threshold_and_reset [of initialState 90 threeSections]
    wheel_threshold_and_reset [of initialState "- 90" threeSections]
  by (simp add: handleWheel_def Let_def scheduleWheelReset_def resetWheel_def scrollToIndex_def
      initialState_def threeSections_def WHEEL_TRIGGER_def)

subsection \<open>C8: a payload with a missing field\<close>

text \<open>
  C8 as stated fails for a missing side. The payload with the id \<open>tech\<close> and no side
  changes the active section from \<open>about\<close> to \<open>tech\<close> and inserts a ripple at 0.82 of
  the width: the handler reads a missing side as \<open>left\<close>.
\<close>

theorem section_change_without_side_counterexample:
  "detail_side techWithoutSide = None
   \<and> activeSection initialCanvas = ''about''
   \<and> ripples initialCanvas = []
   \<and> activeSection (handleSectionChange (Some techWithoutSide) 1000 800 0 initialCanvas) = ''tech''
   \<and> ripples (handleSectionChange (Some techWithoutSide) 1000 800 0 initialCanvas) =
       [\<lparr>ripple_x = 820, ripple_y = 360, start = 0, duration = 2.6, speed = 7.1,
         strength = 0.65\<rparr>]"
  by (simp add: handleSectionChange_def techWithoutSide_def initialCanvas_def pushRipple_def
      MAX_RIPPLES_def Let_def)

text \<open>
  C8, as amended: a section-change event without a payload, or whose payload has no id
  or an empty id, is a silent no-op of the receiving handler: the state, and with it the
  active section and the ripple collection, is unchanged. A payload with an id and without
  a side is handled as one with the side \<open>left\<close>: the active section becomes the id and
  one ripple is inserted at 0.82 of the width. On the publishing side, \<^verbatim>\<open>setActive\<close> on an
  element without an id, or with an empty one, is a no-op. No handler has an error result.
\<close>

theorem payload_without_id_is_noop:
  "handleSectionChange None width height now s = s
   \<and> (detail_id d = None \<or> detail_id d = Some [] \<longrightarrow>
        handleSectionChange (Some d) width height now s = s)
   \<and> (detail_id d = Some i \<and> i \<noteq> [] \<and> detail_side d = None \<longrightarrow>
        handleSectionChange (Some d) width height now s =
          pushRipple (width * 0.82) (height * 0.45) 0.65 now (s\<lparr>activeSection := i\<rparr>))
   \<and> (sectionId el = None \<or> sectionId el = Some [] \<longrightarrow> setActive sections el ns = ns)"
  by (auto simp add: handleSectionChange_def setActive_def Let_def)

text \<open>
  The theorem on payloads without an id, with an empty id and without a side, and on an
  element with an empty id.
\<close>

theorem payload_without_id_is_noop_witness:
  "handleSectionChange (Some \<lparr>detail_id = None, detail_side = Some ''right''\<rparr>) 1000 800 0 mounted
     = mounted
   \<and> handleSectionChange (Some \<lparr>detail_id = Some [], detail_side = Some ''right''\<rparr>) 1000 800 0
       mounted = mounted
   \<and> handleSectionChange (Some techWithoutSide) 1000 800 0 mounted =
       pushRipple 820 360 0.65 0 (mounted\<lparr>activeSection := ''tech''\<rparr>)
   \<and> setActive threeSections \<lparr>ident = 7, sectionId = Some [], sectionSide = None\<rparr> initialState
       = initialState"
  using payload_without_id_is_noop
      [of 1000 800 0 mounted "\<lparr>detail_id = None, detail_side = Some ''right''\<rparr>"]
    payload_without_id_is_noop
      [of 1000 800 0 mounted "\<lparr>detail_id = Some [], detail_side = Some ''right''\<rparr>"]
    payload_without_id_is_noop
      [of 1000 800 0 mounted techWithoutSide "''tech''"
          "\<lparr>ident = 7, sectionId = Some [], sectionSide = None\<rparr>" threeSections initialState]
  by (simp add: techWithoutSide_def)

subsection \<open>C9: the star mask\<close>

text \<open>
  C9: regenerating the stars for a grid of \<open>cols\<close> by \<open>rows\<close> cells leaves a mask of
  length \<open>cols * rows\<close> and calls \<^verbatim>\<open>Math.random()\<close> exactly
  \<open>max 80 \<lfloor>cols * rows * 0.012\<rfloor>\<close> times, hence at least 80 times, however small the
  grid is. A resize computes the grid from the viewport and regenerates the stars for it.
\<close>

theorem star_mask_size_and_samples:
  "length (starMask (regenerateStars cols rows rnd s)) = cols * rows
   \<and> randomCalls (regenerateStars cols rows rnd s)
       = randomCalls s + nat (max 80 \<lfloor>real (cols * rows) * STAR_DENSITY\<rfloor>)
   \<and> 80 \<le> randomCalls (regenerateStars cols rows rnd s) - randomCalls s
   \<and> gridMeta (handleResize width height rnd s)
       = (nat \<lceil>real width / CELL_SIZE\<rceil>, nat \<lceil>real height / CELL_SIZE\<rceil>, CELL_SIZE)
   \<and> length (starMask (handleResize width height rnd s))
       = nat \<lceil>real width / CELL_SIZE\<rceil> * nat \<lceil>real height / CELL_SIZE\<rceil>"
  by (simp add: regenerateStars_def handleResize_def Let_def starLoop_length starLoop_calls)

subsection \<open>C10: what the programmatic scroll writes\<close>

text \<open>
  C10: for an in-range index, \<^verbatim>\<open>scrollToIndex\<close> returns the state with the lock flag
  set, the accumulator at 0, no wheel timer, the release timer at 900 ms from now, and
  the scroll request logged; the active index, the active side and the published events
  are as before. Whenever an event changes the active index, the active side or the
  published events, it is the first frame or a visibility notification, the two callers
  of \<^verbatim>\<open>setActive\<close>.
\<close>

theorem scrollToIndex_frame:
  "(0 \<le> index \<and> index < int (length sections) \<longrightarrow>
      scrollToIndex sections index s =
        s\<lparr>isAnimating := True, wheelDelta := 0, wheelResetTimer := None,
          releaseTimer := Some (clock s + SCROLL_LOCK_MS),
          scrolledIntoView := scrolledIntoView s @ [sections ! nat index]\<rparr>
      \<and> activeIndex (scrollToIndex sections index s) = activeIndex s
      \<and> activeSide (scrollToIndex sections index s) = activeSide s
      \<and> published (scrollToIndex sections index s) = published s)
   \<and> (activeIndex (step sections ev s) \<noteq> activeIndex s
        \<or> activeSide (step sections ev s) \<noteq> activeSide s
        \<or> published (step sections ev s) \<noteq> published s
      \<longrightarrow> ev = FirstFrame \<or> (\<exists>entries. ev = Intersection entries))"
proof (intro conjI impI)
  assume "0 \<le> index \<and> index < int (length sections)"
  then show "scrollToIndex sections index s =
        s\<lparr>isAnimating := True, wheelDelta := 0, wheelResetTimer := None,
          releaseTimer := Some (clock s + SCROLL_LOCK_MS),
          scrolledIntoView := scrolledIntoView s @ [sections ! nat index]\<rparr>"
    by (simp add: scrollToIndex_def resetWheel_def Let_def)
next
  show "activeIndex (scrollToIndex sections index s) = activeIndex s"
    by (simp add: scrollToIndex_keeps)
next
  show "activeSide (scrollToIndex sections index s) = activeSide s"
    by (simp add: scrollToIndex_keeps)
next
  show "published (scrollToIndex sections index s) = published s"
    by (simp add: scrollToIndex_keeps)
next
  assume a: "activeIndex (step sections ev s) \<noteq> activeIndex s
        \<or> activeSide (step sections ev s) \<noteq> activeSide s
        \<or> published (step sections ev s) \<noteq> published s"
  show "ev = FirstFrame \<or> (\<exists>entries. ev = Intersection entries)"
  proof (rule ccontr)
    assume "\<not> (ev = FirstFrame \<or> (\<exists>entries. ev = Intersection entries))"
    then have "ev \<noteq> FirstFrame" "\<And>es. ev \<noteq> Intersection es" by auto
    from step_keeps_active[OF this] a show False by blast
  qed
qed

text \<open>
  The theorem on a scroll to the second of three sections, and on a visibility
  notification that publishes.
\<close>

theorem scrollToIndex_frame_witness:
  "activeIndex (scrollToIndex threeSections 1 initialState) = 0
   \<and> activeSide (scrollToIndex threeSections 1 initialState) = LeftSide
   \<and> published (scrollToIndex threeSections 1 initialState) = []
   \<and> isAnimating (scrollToIndex threeSections 1 initialState)
   \<and> scrolledIntoView (scrollToIndex threeSections 1 initialState) = [sectionB]
   \<and> published (step threeSections (Intersection seesB) initialState) \<noteq> published initialState"
  using scrollToIndex_frame [of 1 threeSections initialState "Intersection seesB"]
  by (simp add: threeSections_def initialState_def seesB_def observerCallback_def visibleEntry_def
      setActive_def sectionA_def sectionB_def sectionC_def)

end
